theory Spec2Isabelle
  imports Complex_Main "HOL-Library.AList"
begin

section \<open>Exceptions\<close>

text \<open>
  Every exception that the modelled functions of \<^verbatim>\<open>cache_to_disk/__init__.py\<close> can raise is
  a value of \<open>error\<close>; a function that may raise returns \<open>error + 'a\<close> with \<open>Inl\<close> the
  exception. \<open>ComputationError\<close> stands for any exception of the wrapped function other than
  \<open>NoCacheCondition\<close>; \<open>ReservedName\<close> is the plain \<open>Exception\<close> of \<open>cache_function_value\<close>.
\<close>

datatype error =
    LockTimeout
  | FileNotFoundError
  | AssertionError
  | TypeError
  | KeyError
  | AttributeError
  | ValueError
  | UnpicklingError
  | PicklingError
  | ReservedName
  | ComputationError

section \<open>Lock coordinator: \<open>open_locked\<close>\<close>

text \<open>
  \<^verbatim>\<open>DISK_CACHE_LOCK_MAX_WAIT = float(getenv("DISK_CACHE_LOCK_MAX_WAIT", 10))\<close> and
  \<^verbatim>\<open>DISK_CACHE_LOCK_INTERVAL = float(getenv("DISK_CACHE_LOCK_INTERVAL", 0.1))\<close>: the defaults.
\<close>

definition DISK_CACHE_LOCK_MAX_WAIT :: real where
  "DISK_CACHE_LOCK_MAX_WAIT = 10"

definition DISK_CACHE_LOCK_INTERVAL :: real where
  "DISK_CACHE_LOCK_INTERVAL = 1 / 10"

text \<open>
  The retry loop of \<open>open_locked\<close>:
  \<^verbatim>\<open>
    elapsed = 0
    while elapsed < DISK_CACHE_LOCK_MAX_WAIT:
        try:
            fcntl.flock(lockfd, flags)
            try:
                fd = open(path, mode=mode)
            except IOError:
                lockfd.close()
                raise
            yield fd
            ...
            break
        except BlockingIOError:
            logger.warning(...)
            sleep(DISK_CACHE_LOCK_INTERVAL)
    else:
        raise LockTimeout(...)
  \<close>
  The environment is the oracle \<open>contended\<close>: \<open>contended n\<close> says that the \<open>n\<close>-th call of
  \<open>flock\<close> (counted from 0) raises \<open>BlockingIOError\<close>. \<open>can_open\<close> says whether
  \<open>open(path, mode)\<close> succeeds once the lock is held. The loop state is the local \<open>elapsed\<close>
  and the number \<open>n\<close> of attempts made so far; \<open>slept\<close> is the time spent in \<open>sleep\<close>.
  The body of the loop assigns nothing to \<open>elapsed\<close>, so the recursive call passes it on as
  it is. A loop that never exits is the value \<open>None\<close>. A result \<open>Inr (n, slept)\<close> is the
  lock acquired at attempt \<open>n\<close> after sleeping \<open>slept\<close> seconds.
\<close>

partial_function (option) open_locked_loop ::
  "(nat \<Rightarrow> bool) \<Rightarrow> bool \<Rightarrow> real \<Rightarrow> real \<Rightarrow> real \<Rightarrow> nat \<Rightarrow> real \<Rightarrow> (error + nat \<times> real) option"
where
  "open_locked_loop contended can_open max_wait interval elapsed n slept =
     (if elapsed < max_wait then
        (if contended n
         then open_locked_loop contended can_open max_wait interval elapsed (Suc n) (slept + interval)
         else if can_open then Some (Inr (n, slept)) else Some (Inl FileNotFoundError))
      else Some (Inl LockTimeout))"

definition open_locked :: "(nat \<Rightarrow> bool) \<Rightarrow> bool \<Rightarrow> (error + nat \<times> real) option" where
  "open_locked contended can_open =
     open_locked_loop contended can_open DISK_CACHE_LOCK_MAX_WAIT DISK_CACHE_LOCK_INTERVAL 0 0 0"

text \<open>\<open>open_exclusive\<close> and \<open>open_shared\<close> only fix the flags (\<open>LOCK_EX | LOCK_NB\<close>,
  \<open>LOCK_SH | LOCK_NB\<close>); the flags decide what the oracle answers, not what the loop does.\<close>

definition open_exclusive :: "(nat \<Rightarrow> bool) \<Rightarrow> bool \<Rightarrow> (error + nat \<times> real) option" where
  "open_exclusive contended can_open = open_locked contended can_open"

definition open_shared :: "(nat \<Rightarrow> bool) \<Rightarrow> bool \<Rightarrow> (error + nat \<times> real) option" where
  "open_shared contended can_open = open_locked contended can_open"

section \<open>The decorator: \<open>cache_to_disk\<close>\<close>

definition UNLIMITED_CACHE_AGE :: int where
  "UNLIMITED_CACHE_AGE = 0"


text \<open>What the wrapper is built with: the wrapped function's \<open>__name__\<close>, the TTL after
  coercion (\<open>None\<close> stays \<open>None\<close>), the excluded argument names and the rename flag.\<close>

record config =
  func_name :: string
  n_days_to_cache :: "int option"
  except_arg_names :: "string list"
  rename_np_memmap_file :: bool


text \<open>The staleness test, written three times in the source as
  \<^verbatim>\<open>get_age_of_file(file_name) > max_age_days != UNLIMITED_CACHE_AGE\<close>: a chained
  comparison, \<open>a > b and b != c\<close>.\<close>

definition is_stale :: "int \<Rightarrow> int \<Rightarrow> bool" where
  "is_stale age max_age_days = (age > max_age_days \<and> max_age_days \<noteq> UNLIMITED_CACHE_AGE)"

section \<open>Strings: \<open>str\<close> and \<open>repr\<close>\<close>

text \<open>
  A Python \<open>str\<close> is modelled as the list of its code points, each a \<open>char\<close>: the strings
  of the model are those whose code points are below 256 (ASCII and Latin-1). Argument values
  appear in the source only through \<open>str(args)\<close> and \<open>str(kwargs)\<close>, so a positional argument
  is represented by its \<open>repr\<close> and a keyword argument by its name and the \<open>repr\<close> of its
  value.
\<close>

definition hex_digit :: "nat \<Rightarrow> char" where
  "hex_digit n = ''0123456789abcdef'' ! n"

definition quote_of :: "string \<Rightarrow> char" where
  "quote_of s = (if CHR 0x27 \<in> set s \<and> CHR 0x22 \<notin> set s then CHR 0x22 else CHR 0x27)"

text \<open>The code points below 256 for which \<open>str.isprintable\<close> is false: the control
  characters \<open>0x00\<close> to \<open>0x1f\<close> and \<open>0x7f\<close> to \<open>0x9f\<close>, the no-break space \<open>0xa0\<close> and
  the soft hyphen \<open>0xad\<close>.\<close>

definition non_printable :: "char \<Rightarrow> bool" where
  "non_printable c =
     ((of_char c :: nat) < 32 \<or> (127 \<le> (of_char c :: nat) \<and> (of_char c :: nat) \<le> 160)
      \<or> (of_char c :: nat) = 173)"

text \<open>\<open>repr\<close> of one character of a \<open>str\<close> inside quotes \<open>q\<close>: the quote and the backslash
  get a backslash, tab, newline and carriage return their letter, every other character that
  is not printable becomes \<open>\\xhh\<close>, and a printable character stands for itself.\<close>

definition escape_char :: "char \<Rightarrow> char \<Rightarrow> string" where
  "escape_char q c =
     (if c = q \<or> c = CHR 0x5C then [CHR 0x5C, c]
      else if c = CHR 0x09 then [CHR 0x5C, CHR ''t'']
      else if c = CHR 0x0A then [CHR 0x5C, CHR ''n'']
      else if c = CHR 0x0D then [CHR 0x5C, CHR ''r'']
      else if non_printable c
        then [CHR 0x5C, CHR ''x'', hex_digit ((of_char c :: nat) div 16),
              hex_digit ((of_char c :: nat) mod 16)]
      else [c])"

definition py_repr_str :: "string \<Rightarrow> string" where
  "py_repr_str s = quote_of s # concat (map (escape_char (quote_of s)) s) @ [quote_of s]"

fun join_str :: "string \<Rightarrow> string list \<Rightarrow> string" where
  "join_str sep [] = []"
| "join_str sep [x] = x"
| "join_str sep (x # y # xs) = x @ sep @ join_str sep (y # xs)"

text \<open>\<open>str\<close> of a tuple, given the \<open>repr\<close> of each element.\<close>

fun str_tuple :: "string list \<Rightarrow> string" where
  "str_tuple [] = ''()''"
| "str_tuple [x] = ''('' @ x @ '',)''"
| "str_tuple xs = ''('' @ join_str '', '' xs @ '')''"

text \<open>\<open>str\<close> of a dict with \<open>str\<close> keys, given each key and the \<open>repr\<close> of its value.\<close>

definition str_item :: "string \<times> string \<Rightarrow> string" where
  "str_item kv = py_repr_str (fst kv) @ '': '' @ snd kv"

definition str_dict :: "(string \<times> string) list \<Rightarrow> string" where
  "str_dict kws = ''{'' @ join_str '', '' (map str_item kws) @ ''}''"

section \<open>\<open>hashlib.sha1\<close>\<close>

text \<open>
  \<open>hashlib.sha1(b).hexdigest()\<close> is SHA-1 (FIPS 180-4) of the bytes \<open>b\<close> in lower-case hex;
  a byte is a natural number below 256. 32-bit words are natural numbers below \<open>2 ^ 32\<close> with the wrap-around written out.
\<close>

type_synonym w32 = nat

definition rotl32 :: "nat \<Rightarrow> w32 \<Rightarrow> w32" where
  "rotl32 n w = (w * 2 ^ n) mod 4294967296 + w div 2 ^ (32 - n)"

fun be_word :: "w32 \<Rightarrow> nat list \<Rightarrow> w32" where
  "be_word acc [] = acc"
| "be_word acc (b # bs) = be_word (acc * 256 + b) bs"

fun words_of :: "nat list \<Rightarrow> w32 list" where
  "words_of (a # b # c # d # bs) = be_word 0 [a, b, c, d] # words_of bs"
| "words_of bs = []"

text \<open>Zero bytes are appended until the length is 56 modulo 64 (at most 63 of them; the
  first argument bounds the recursion).\<close>

fun pad_zeros :: "'a list \<Rightarrow> nat list \<Rightarrow> nat list" where
  "pad_zeros [] bs = bs"
| "pad_zeros (f # fuel) bs = (if length bs mod 64 = 56 then bs else pad_zeros fuel (bs @ [0]))"

definition len_bytes :: "nat \<Rightarrow> nat list" where
  "len_bytes n = map (\<lambda>s. (n div 2 ^ s) mod 256) [56, 48, 40, 32, 24, 16, 8, 0]"

definition sha1_pad :: "nat list \<Rightarrow> nat list" where
  "sha1_pad m = pad_zeros (replicate 64 ()) (m @ [128]) @ len_bytes (8 * length m)"

text \<open>The message schedule, newest word first: \<open>W\<^sub>t = rotl 1 (W\<^sub>t\<^sub>-\<^sub>3 xor W\<^sub>t\<^sub>-\<^sub>8 xor W\<^sub>t\<^sub>-\<^sub>1\<^sub>4 xor W\<^sub>t\<^sub>-\<^sub>1\<^sub>6)\<close>,
  one word for each element of the first argument.\<close>

fun sha1_schedule :: "'a list \<Rightarrow> w32 list \<Rightarrow> w32 list" where
  "sha1_schedule [] rw = rev rw"
| "sha1_schedule (f # fuel) rw =
     sha1_schedule fuel (rotl32 1 (xor (xor (rw ! 2) (rw ! 7)) (xor (rw ! 13) (rw ! 15))) # rw)"

definition sha1_f :: "nat \<Rightarrow> w32 \<Rightarrow> w32 \<Rightarrow> w32 \<Rightarrow> w32" where
  "sha1_f t b c d =
     (if t < 20 then or (and b c) (and (4294967295 - b) d)
      else if t < 40 then xor (xor b c) d
      else if t < 60 then or (or (and b c) (and b d)) (and c d)
      else xor (xor b c) d)"

definition sha1_k :: "nat \<Rightarrow> w32" where
  "sha1_k t = (if t < 20 then 0x5A827999 else if t < 40 then 0x6ED9EBA1
               else if t < 60 then 0x8F1BBCDC else 0xCA62C1D6)"

type_synonym sha1_state = "w32 \<times> w32 \<times> w32 \<times> w32 \<times> w32"

fun sha1_rounds :: "nat \<Rightarrow> w32 \<Rightarrow> w32 \<Rightarrow> w32 \<Rightarrow> w32 \<Rightarrow> w32 \<Rightarrow> w32 list \<Rightarrow> sha1_state" where
  "sha1_rounds t a b c d e [] = (a, b, c, d, e)"
| "sha1_rounds t a b c d e (w # ws) =
     sha1_rounds (t + 1) ((rotl32 5 a + sha1_f t b c d + e + sha1_k t + w) mod 4294967296)
       a (rotl32 30 b) c d ws"

fun rounds_from :: "sha1_state \<Rightarrow> w32 list \<Rightarrow> sha1_state" where
  "rounds_from (h0, h1, h2, h3, h4) ws = sha1_rounds 0 h0 h1 h2 h3 h4 ws"

fun add_state :: "sha1_state \<Rightarrow> sha1_state \<Rightarrow> sha1_state" where
  "add_state (h0, h1, h2, h3, h4) (a, b, c, d, e) =
     ((h0 + a) mod 4294967296, (h1 + b) mod 4294967296, (h2 + c) mod 4294967296,
      (h3 + d) mod 4294967296, (h4 + e) mod 4294967296)"

definition sha1_block :: "sha1_state \<Rightarrow> nat list \<Rightarrow> sha1_state" where
  "sha1_block h block =
     add_state h (rounds_from h (sha1_schedule (replicate 64 ()) (rev (words_of block))))"

text \<open>One block for every 64 bytes; the first argument bounds the recursion.\<close>

fun sha1_blocks :: "'a list \<Rightarrow> sha1_state \<Rightarrow> nat list \<Rightarrow> sha1_state" where
  "sha1_blocks [] h m = h"
| "sha1_blocks (f # fuel) h m =
     (if m = [] then h else sha1_blocks fuel (sha1_block h (take 64 m)) (drop 64 m))"

definition sha1_init :: sha1_state where
  "sha1_init = (0x67452301, 0xEFCDAB89, 0x98BADCFE, 0x10325476, 0xC3D2E1F0)"

definition hex_word :: "w32 \<Rightarrow> string" where
  "hex_word w = map (\<lambda>s. hex_digit ((w div 2 ^ s) mod 16)) [28, 24, 20, 16, 12, 8, 4, 0]"

fun hex_state :: "sha1_state \<Rightarrow> string" where
  "hex_state (h0, h1, h2, h3, h4) = concat (map hex_word [h0, h1, h2, h3, h4])"

definition sha1_hex :: "nat list \<Rightarrow> string" where
  "sha1_hex bs = (let m = sha1_pad bs in hex_state (sha1_blocks m sha1_init m))"

text \<open>\<open>str.encode()\<close>: UTF-8. A code point below 128 is one byte, one from 128 to 255 is
  two.\<close>

definition encode_char :: "char \<Rightarrow> nat list" where
  "encode_char c =
     (if (of_char c :: nat) < 128 then [of_char c]
      else [192 + (of_char c :: nat) div 64, 128 + (of_char c :: nat) mod 64])"

definition encode_utf8 :: "string \<Rightarrow> nat list" where
  "encode_utf8 s = concat (map encode_char s)"

section \<open>Key deriver: \<open>get_hash_filename\<close>\<close>

text \<open>
  \<^verbatim>\<open>
    def get_hash_filename(function_name,*args,**kwargs):
        filename = function_name+'_'+str(args)+'_'+str(kwargs)
        hash_str = hashlib.sha1(str(filename).encode()).hexdigest()
        filename = f"{function_name}_{hash_str}"
        return filename
  \<close>
  \<open>pos\<close> holds the \<open>repr\<close> of each extra positional argument, \<open>kws\<close> the keyword arguments.
\<close>

definition hash_input :: "string \<Rightarrow> string list \<Rightarrow> (string \<times> string) list \<Rightarrow> string" where
  "hash_input function_name pos kws = function_name @ ''_'' @ str_tuple pos @ ''_'' @ str_dict kws"

definition get_hash_filename :: "string \<Rightarrow> string list \<Rightarrow> (string \<times> string) list \<Rightarrow> string" where
  "get_hash_filename function_name pos kws =
     function_name @ ''_'' @ sha1_hex (encode_utf8 (hash_input function_name pos kws))"

text \<open>Both callers pass the two canonical strings as positional arguments:
  \<^verbatim>\<open>get_hash_filename(function_name,str(args),str(kwargs))\<close>.\<close>

definition derive_key :: "string \<Rightarrow> string \<Rightarrow> string \<Rightarrow> string" where
  "derive_key function_name args_repr kwargs_repr =
     get_hash_filename function_name [py_repr_str args_repr, py_repr_str kwargs_repr] []"

section \<open>Values, files and the registry\<close>

text \<open>
  The element type and shape of an array, as far as \<open>numpy\<close> treats them differently:
  \<^item> \<open>Native k\<close>: a dtype without Python objects that \<open>numpy.dtype(dtype.name)\<close> gives back
    (\<open>float64\<close>, \<open>int32\<close>, ...);
  \<^item> \<open>Foreign k\<close>: a dtype without Python objects that its \<open>name\<close> does not give back
    (byte-swapped, structured, ...);
  \<^item> \<open>Objects ok k\<close>: \<open>dtype=object\<close>; \<open>ok\<close> says whether the elements can be pickled.
  The number identifies the dtype and the shape.
\<close>

datatype arr_meta = Native nat | Foreign nat | Objects bool nat

text \<open>
  A Python value as far as the source tells values apart: \<open>None\<close>, a \<open>numpy.ndarray\<close>, an
  object that \<open>pickle\<close> serializes (\<open>VObj\<close>) and one that it refuses (\<open>VOpaque\<close>: a lambda, an
  open file, ...). \<open>VArr backing meta data\<close> is an array with element type and shape \<open>meta\<close>
  and buffer \<open>data\<close>; it is an instance of \<open>numpy.memmap\<close>, with \<open>filename\<close> \<open>p\<close>, when
  \<open>backing = Some p\<close>. \<open>numpy.memmap\<close> is a subclass of \<open>numpy.ndarray\<close>.
\<close>

datatype val = VNone | VObj nat | VOpaque nat | VArr "string option" arr_meta nat

definition is_ndarray :: "val \<Rightarrow> bool" where
  "is_ndarray v = (case v of VArr backing meta data \<Rightarrow> True | _ \<Rightarrow> False)"

definition is_memmap :: "val \<Rightarrow> bool" where
  "is_memmap v = (case v of VArr (Some p) meta data \<Rightarrow> True | _ \<Rightarrow> False)"

text \<open>
  What a file holds: \<open>pickle.dumps\<close> of a value, \<open>numpy.save\<close> of an array, the raw buffer
  of an array of some layout (the file behind a \<open>numpy.memmap\<close>), the JSON sidecar
  \<open>{'dtype': dtype.name, 'shape': shape}\<close> that \<open>rename_np_memmap\<close> writes for a layout, or
  bytes that are none of these.
\<close>

datatype content = Pickle val | Npy arr_meta nat | Raw arr_meta nat | Sidecar arr_meta | Garbage

record disk_file =
  mtime :: int
  content :: content

text \<open>One registry row, with the keys of the JSON object. \<open>max_age_days\<close> is \<open>None\<close> for a
  JSON \<open>null\<close> (the decorator was given \<open>None\<close>).\<close>

record entry =
  args :: string
  kwargs :: string
  file_name :: string
  max_age_days :: "int option"

text \<open>The registry document is one JSON object: the reserved key holds a number, every other
  key a list of rows. Python dicts keep insertion order, so it is an association list (with
  distinct keys).\<close>

datatype reg_val = Count int | Rows "entry list"

type_synonym registry_doc = "(string \<times> reg_val) list"

definition TOTAL_NUMCACHE_KEY :: string where
  "TOTAL_NUMCACHE_KEY = ''total_number_of_cache_to_disks''"

definition DISK_CACHE_DIR :: string where
  "DISK_CACHE_DIR = ''disk_cache''"

text \<open>
  The state outside the process: the clock (seconds), the registry file \<open>DISK_CACHE_FILE\<close>
  (\<open>None\<close> when it does not exist) and the other files by path. The \<open>.lock\<close> siblings are
  not part of it, and no other process runs: every \<open>flock\<close> of the functions below succeeds
  at once. The registry file is not one of the artifact paths.

  \<open>misread\<close> is what \<open>numpy.memmap\<close> does when it is asked to map, at a path and for a
  layout, bytes that are not the raw buffer of that layout (or a layout that it knows by a
  dtype name only): it raises (\<open>None\<close>) or hands back an array over those bytes
  (\<open>Some (meta, data)\<close>). The file contents above do not decide which, so it is part of the
  environment.
\<close>

record world =
  now :: int
  registry :: "registry_doc option"
  files :: "string \<rightharpoonup> disk_file"
  misread :: "string \<Rightarrow> arr_meta \<Rightarrow> (arr_meta \<times> nat) option"

text \<open>\<open>os.path.join(d, n)\<close> for a directory \<open>d\<close> that is not empty and does not end in
  \<open>/\<close>, as \<open>DISK_CACHE_DIR\<close> is.\<close>

definition join_path :: "string \<Rightarrow> string \<Rightarrow> string" where
  "join_path d n = (case n of c # cs \<Rightarrow> (if c = CHR ''/'' then n else d @ ''/'' @ n) | [] \<Rightarrow> d @ ''/'')"

definition file_exists :: "world \<Rightarrow> string \<Rightarrow> bool" where
  "file_exists w p = (files w p \<noteq> None)"

definition os_remove :: "string \<Rightarrow> world \<Rightarrow> world" where
  "os_remove p w = w\<lparr>files := (files w)(p := None)\<rparr>"

definition write_file :: "string \<Rightarrow> content \<Rightarrow> world \<Rightarrow> world" where
  "write_file p c w = w\<lparr>files := (files w)(p \<mapsto> \<lparr>mtime = now w, content = c\<rparr>)\<rparr>"

text \<open>\<open>shutil.move\<close> of an existing file: the file keeps its modification time.\<close>

definition move_file :: "string \<Rightarrow> string \<Rightarrow> world \<Rightarrow> world" where
  "move_file src dst w = w\<lparr>files := (files w)(dst := files w src, src := None)\<rparr>"

text \<open>\<^verbatim>\<open>age = datetime.today() - datetime.fromtimestamp(getmtime(filename)); age.days\<close>:
  whole days, rounded down.\<close>

definition get_age_of_file :: "world \<Rightarrow> string \<Rightarrow> error + int" where
  "get_age_of_file w p =
     (case files w p of None \<Rightarrow> Inl FileNotFoundError
      | Some f \<Rightarrow> Inr ((now w - mtime f) div 86400))"

definition write_cache_file :: "registry_doc \<Rightarrow> world \<Rightarrow> world" where
  "write_cache_file cache_metadata_dict w = w\<lparr>registry := Some cache_metadata_dict\<rparr>"

definition load_cache_metadata_json :: "world \<Rightarrow> registry_doc \<times> world" where
  "load_cache_metadata_json w =
     (case registry w of
        Some d \<Rightarrow> (d, w)
      | None \<Rightarrow> ([(TOTAL_NUMCACHE_KEY, Count 0)],
                 write_cache_file [(TOTAL_NUMCACHE_KEY, Count 0)] w))"

section \<open>Artifact backend\<close>

definition ends_with :: "string \<Rightarrow> string \<Rightarrow> bool" where
  "ends_with suffix s = (length suffix \<le> length s \<and> drop (length s - length suffix) s = suffix)"

text \<open>\<open>numpy.memmap(file_path, dtype, mode='r', shape)\<close> for a layout given by its dtype
  object. A missing file and \<open>dtype=object\<close> raise. Over the raw buffer of that layout the
  result is that array. Over any other bytes \<open>misread\<close> answers: \<open>numpy\<close> raises (the file is
  too short) or maps the bytes as they are.\<close>

definition np_memmap :: "world \<Rightarrow> string \<Rightarrow> arr_meta \<Rightarrow> error + val" where
  "np_memmap w p meta =
     (case files w p of
        None \<Rightarrow> Inl FileNotFoundError
      | Some f \<Rightarrow>
          (case meta of
             Objects ok k \<Rightarrow> Inl ValueError
           | _ \<Rightarrow>
               (case content f of
                  Raw m d \<Rightarrow>
                    if m = meta then Inr (VArr (Some p) meta d)
                    else (case misread w p meta of
                            None \<Rightarrow> Inl ValueError
                          | Some md \<Rightarrow> Inr (VArr (Some p) meta (snd md)))
                | _ \<Rightarrow>
                    (case misread w p meta of
                       None \<Rightarrow> Inl ValueError
                     | Some md \<Rightarrow> Inr (VArr (Some p) meta (snd md))))))"

text \<open>The same call with the dtype given by the \<open>name\<close> that a sidecar holds. The name of a
  \<open>Native\<close> dtype stands for that dtype. The name of a \<open>Foreign\<close> one stands for another dtype
  or for none, and \<open>misread\<close> answers with the array that comes back, if one does.\<close>

definition np_memmap_by_name :: "world \<Rightarrow> string \<Rightarrow> arr_meta \<Rightarrow> error + val" where
  "np_memmap_by_name w p meta =
     (case meta of
        Foreign k \<Rightarrow>
          (case files w p of
             None \<Rightarrow> Inl FileNotFoundError
           | Some f \<Rightarrow>
               (case misread w p meta of
                  None \<Rightarrow> Inl ValueError
                | Some md \<Rightarrow> Inr (VArr (Some p) (fst md) (snd md))))
      | _ \<Rightarrow> np_memmap w p meta)"

text \<open>\<open>load_np_memmap\<close>: everything is inside \<open>try ... except Exception\<close>, and \<open>data\<close> starts
  as \<open>None\<close>.\<close>

definition load_np_memmap :: "world \<Rightarrow> string \<Rightarrow> val" where
  "load_np_memmap w file_path =
     (case files w (file_path @ ''.json'') of None \<Rightarrow> VNone
      | Some f \<Rightarrow>
          (case content f of
             Sidecar meta \<Rightarrow>
               (case np_memmap_by_name w file_path meta of Inl e \<Rightarrow> VNone | Inr v \<Rightarrow> v)
           | _ \<Rightarrow> VNone))"

text \<open>\<open>load_numpy\<close>: \<open>open_shared\<close> and \<open>np.load(file_path, mmap_mode)\<close> inside
  \<open>try ... except Exception\<close>. \<open>np.load\<close> with a \<open>mmap_mode\<close> gives a \<open>numpy.memmap\<close>, and
  raises for an array of \<open>dtype=object\<close>.\<close>

definition load_numpy :: "world \<Rightarrow> string \<Rightarrow> val" where
  "load_numpy w file_path =
     (case files w file_path of None \<Rightarrow> VNone
      | Some f \<Rightarrow>
          (case content f of
             Npy meta d \<Rightarrow>
               (case meta of Objects ok k \<Rightarrow> VNone | _ \<Rightarrow> VArr (Some file_path) meta d)
           | _ \<Rightarrow> VNone))"

text \<open>\<^verbatim>\<open>with open_shared(file_path, "rb") as f: return pickle.load(f)\<close>\<close>

definition pickle_load :: "world \<Rightarrow> string \<Rightarrow> error + val" where
  "pickle_load w file_path =
     (case files w file_path of None \<Rightarrow> Inl FileNotFoundError
      | Some f \<Rightarrow> (case content f of Pickle v \<Rightarrow> Inr v | _ \<Rightarrow> Inl UnpicklingError))"

text \<open>The handler of \<open>unpickle_big_data\<close> for a path that does not end in \<open>.npy\<close>:
  \<^verbatim>\<open>
    bytes_in = bytearray(0)
    input_size = os.path.getsize(file_path)
    with open_shared(file_path, mode="rb") as f_in:
        for _ in range(0, input_size, MAX_PICKLE_BYTES):
            bytes_in += f_in.read(MAX_PICKLE_BYTES)
    return pickle.loads(bytes_in)
  \<close>
  It reads the same bytes again, in chunks, and is inside no \<open>try\<close>.\<close>

definition chunked_reload :: "world \<Rightarrow> string \<Rightarrow> error + val" where
  "chunked_reload w file_path =
     (case files w file_path of None \<Rightarrow> Inl FileNotFoundError
      | Some f \<Rightarrow> (case content f of Pickle v \<Rightarrow> Inr v | _ \<Rightarrow> Inl UnpicklingError))"

text \<open>The \<open>try\<close> block of \<open>unpickle_big_data\<close>.\<close>

definition unpickle_first :: "world \<Rightarrow> string \<Rightarrow> error + val" where
  "unpickle_first w file_path =
     (if ends_with ''.npy'' file_path then
        (if file_exists w (file_path @ ''.json'') then Inr (load_np_memmap w file_path)
         else Inr (load_numpy w file_path))
      else pickle_load w file_path)"

definition unpickle_big_data :: "world \<Rightarrow> string \<Rightarrow> error + val" where
  "unpickle_big_data w file_path =
     (case unpickle_first w file_path of
        Inr v \<Rightarrow> Inr v
      | Inl e \<Rightarrow> (if ends_with ''.npy'' file_path then Inr VNone else chunked_reload w file_path))"

text \<open>\<open>save_numpy\<close>: \<open>open_exclusive(file_path, "wb")\<close> creates or empties the file, then
  \<open>np.save\<close> writes it. \<open>np.save\<close> pickles an array of \<open>dtype=object\<close> and raises, with the
  file begun, when the elements do not pickle.\<close>

definition save_numpy :: "arr_meta \<Rightarrow> nat \<Rightarrow> string \<Rightarrow> world \<Rightarrow> error option \<times> world" where
  "save_numpy meta d file_path w =
     (case meta of
        Objects ok k \<Rightarrow>
          if ok then (None, write_file file_path (Npy meta d) w)
          else (Some PicklingError, write_file file_path Garbage w)
      | _ \<Rightarrow> (None, write_file file_path (Npy meta d) w))"

text \<open>
  \<open>pickle_big_data\<close> writes nothing for a \<open>numpy.memmap\<close> when the rename flag is set, calls
  \<open>save_numpy\<close> for any other array, and for every other value calls \<open>pickle.dumps\<close>, which
  raises for a value that does not pickle, and then writes the bytes. Nothing here is inside
  a \<open>try\<close>.
\<close>

definition pickle_big_data :: "val \<Rightarrow> string \<Rightarrow> bool \<Rightarrow> world \<Rightarrow> error option \<times> world" where
  "pickle_big_data data file_path rename_flag w =
     (if is_memmap data \<and> rename_flag then (None, w)
      else case data of
        VArr backing meta d \<Rightarrow> save_numpy meta d file_path w
      | VOpaque x \<Rightarrow> (Some PicklingError, w)
      | _ \<Rightarrow> (None, write_file file_path (Pickle data) w))"

text \<open>
  \<^verbatim>\<open>
    def rename_np_memmap(from_filepath, file_path: str,dtype,shape) -> bool:
        meta_config = file_path+'.json'
        with open_exclusive(meta_config, "w") as f:
            json.dump({'dtype':dtype.name,'shape':shape},f)
            ...
            if from_filepath != file_path:
                shutil.move(from_filepath,file_path)
            if os.path.exists(file_path):
                data = np.memmap(file_path, dtype=dtype, mode='r', shape=shape)
                return data
        return None
  \<close>
\<close>

definition rename_np_memmap :: "string \<Rightarrow> string \<Rightarrow> arr_meta \<Rightarrow> world \<Rightarrow> (error + val) \<times> world" where
  "rename_np_memmap from_filepath file_path meta w =
     (let w1 = write_file (file_path @ ''.json'') (Sidecar meta) w in
      if from_filepath \<noteq> file_path \<and> \<not> file_exists w1 from_filepath
      then (Inl FileNotFoundError, w1)
      else
        let w2 = (if from_filepath \<noteq> file_path then move_file from_filepath file_path w1 else w1)
        in if file_exists w2 file_path then (np_memmap w2 file_path meta, w2)
           else (Inr VNone, w2))"

section \<open>Lookup: \<open>cache_exists\<close>\<close>

text \<open>\<^verbatim>\<open>for arg_name in except_arg_names: if arg_name in kwargs: kwargs.pop(arg_name)\<close>\<close>

definition strip_excluded :: "string list \<Rightarrow> (string \<times> string) list \<Rightarrow> (string \<times> string) list" where
  "strip_excluded excl kws = foldl (\<lambda>k arg_name. AList.delete arg_name k) kws excl"

text \<open>
  \<^verbatim>\<open>
    max_age_days = UNLIMITED_CACHE_AGE
    for function_cache in cache_metadata[function_name]:
        if function_cache["args"] == str(args) and (function_cache["kwargs"] == str(kwargs)):
            max_age_days = int(function_cache["max_age_days"])
            break
  \<close>
\<close>

fun find_max_age :: "entry list \<Rightarrow> string \<Rightarrow> string \<Rightarrow> error + int" where
  "find_max_age [] a k = Inr UNLIMITED_CACHE_AGE"
| "find_max_age (function_cache # rest) a k =
     (if args function_cache = a \<and> kwargs function_cache = k
      then (case max_age_days function_cache of None \<Rightarrow> Inl TypeError | Some m \<Rightarrow> Inr m)
      else find_max_age rest a k)"

definition rows_max_age :: "reg_val \<Rightarrow> string \<Rightarrow> string \<Rightarrow> error + int" where
  "rows_max_age rv a k = (case rv of Count c \<Rightarrow> Inl TypeError | Rows rs \<Rightarrow> find_max_age rs a k)"

text \<open>The part of \<open>cache_exists\<close> after the artifact (the local \<open>file_name\<close>) is chosen.\<close>

definition lookup_artifact :: "world \<Rightarrow> string \<Rightarrow> int \<Rightarrow> (error + bool \<times> val) \<times> world" where
  "lookup_artifact w artifact max_age =
     (case get_age_of_file w artifact of
        Inl e \<Rightarrow> (Inl e, w)
      | Inr age \<Rightarrow>
          if is_stale age max_age then (Inr (False, VNone), os_remove artifact w)
          else (case unpickle_big_data w artifact of
                  Inl e \<Rightarrow> (Inl e, w)
                | Inr function_value \<Rightarrow>
                    if function_value \<noteq> VNone then (Inr (True, function_value), w)
                    else (Inr (False, VNone), w)))"

text \<open>\<open>cache_exists(cache_metadata, function_name, except_arg_names, *args, **kwargs)\<close>;
  \<open>pos\<close> and \<open>kws\<close> are \<open>*args\<close> and \<open>**kwargs\<close>. The assertion is the first statement
  (\<open>assert\<close> statements are executed: the interpreter does not run with \<open>-O\<close>); the result
  pair is \<open>(already_cached, function_value)\<close>.\<close>

definition file_path_npy :: "string \<Rightarrow> string list \<Rightarrow> (string \<times> string) list \<Rightarrow> string" where
  "file_path_npy function_name pos kws =
     join_path DISK_CACHE_DIR (derive_key function_name (str_tuple pos) (str_dict kws) @ ''.npy'')"

definition file_path_pkl :: "string \<Rightarrow> string list \<Rightarrow> (string \<times> string) list \<Rightarrow> string" where
  "file_path_pkl function_name pos kws =
     join_path DISK_CACHE_DIR (derive_key function_name (str_tuple pos) (str_dict kws) @ ''.pkl'')"

definition cache_exists ::
  "world \<Rightarrow> registry_doc \<Rightarrow> string \<Rightarrow> string list \<Rightarrow> string list \<Rightarrow> (string \<times> string) list
     \<Rightarrow> (error + bool \<times> val) \<times> world" where
  "cache_exists w cache_metadata function_name excl pos kws =
     (if excl \<noteq> [] \<and> pos \<noteq> [] then (Inl AssertionError, w)
      else
        let kws' = strip_excluded excl kws in
        case map_of cache_metadata function_name of
          None \<Rightarrow> (Inr (False, VNone), w)
        | Some rv \<Rightarrow>
            if \<not> file_exists w (file_path_npy function_name pos kws')
               \<and> \<not> file_exists w (file_path_pkl function_name pos kws')
            then (Inr (False, VNone), w)
            else
              (case rows_max_age rv (str_tuple pos) (str_dict kws') of
                 Inl e \<Rightarrow> (Inl e, w)
               | Inr max_age \<Rightarrow>
                   lookup_artifact w
                     (if file_exists w (file_path_npy function_name pos kws')
                      then file_path_npy function_name pos kws'
                      else file_path_pkl function_name pos kws')
                     max_age))"

section \<open>Store: \<open>cache_function_value\<close>\<close>

definition new_row :: "string \<Rightarrow> string \<Rightarrow> string \<Rightarrow> int option \<Rightarrow> entry" where
  "new_row a k fname ttl = \<lparr>args = a, kwargs = k, file_name = fname, max_age_days = ttl\<rparr>"

text \<open>
  The registry update of \<open>cache_function_value\<close>:
  \<^verbatim>\<open>
    function_caches = cache_metadata.get(function_name, [])
    function_caches.append(new_cache)
    cache_metadata[function_name] = function_caches
    cache_metadata[_TOTAL_NUMCACHE_KEY] = int(cache_metadata[_TOTAL_NUMCACHE_KEY]) + 1
  \<close>
\<close>

definition append_row :: "registry_doc \<Rightarrow> string \<Rightarrow> entry \<Rightarrow> error + registry_doc" where
  "append_row cache_metadata function_name new_cache =
     (case (case map_of cache_metadata function_name of
              None \<Rightarrow> Inr [new_cache]
            | Some (Rows rs) \<Rightarrow> Inr (rs @ [new_cache])
            | Some (Count c) \<Rightarrow> Inl AttributeError) of
        Inl e \<Rightarrow> Inl e
      | Inr function_caches \<Rightarrow>
          (case map_of cache_metadata TOTAL_NUMCACHE_KEY of
             None \<Rightarrow> Inl KeyError
           | Some (Rows rs) \<Rightarrow> Inl TypeError
           | Some (Count c) \<Rightarrow>
               Inr (AList.update TOTAL_NUMCACHE_KEY (Count (c + 1))
                      (AList.update function_name (Rows function_caches) cache_metadata))))"

text \<open>\<open>cache_function_value\<close> returns \<open>new_filepath\<close>. The artifact is written before the
  registry is touched.\<close>

definition cache_function_value ::
  "val \<Rightarrow> int option \<Rightarrow> registry_doc \<Rightarrow> bool \<Rightarrow> string \<Rightarrow> string list \<Rightarrow> (string \<times> string) list
     \<Rightarrow> world \<Rightarrow> (error + string) \<times> world" where
  "cache_function_value function_value ttl cache_metadata rename_flag function_name pos kws w =
     (if function_name = TOTAL_NUMCACHE_KEY then (Inl ReservedName, w)
      else
        let post_fix = (if is_ndarray function_value then ''.npy'' else ''.pkl'');
            new_file_name = derive_key function_name (str_tuple pos) (str_dict kws) @ post_fix;
            new_filepath = join_path DISK_CACHE_DIR new_file_name
        in case pickle_big_data function_value new_filepath rename_flag w of
             (Some e, w1) \<Rightarrow> (Inl e, w1)
           | (None, w1) \<Rightarrow>
               (case append_row cache_metadata function_name
                       (new_row (str_tuple pos) (str_dict kws) new_file_name ttl) of
                  Inl e \<Rightarrow> (Inl e, w1)
                | Inr md \<Rightarrow> (Inr new_filepath, write_cache_file md w1)))"

section \<open>Memoization facade: \<open>wrapper\<close>\<close>

text \<open>The counters of one wrapper; \<open>runs\<close> counts the calls of \<open>original_func\<close> (it is not
  in the source).\<close>

record stats =
  hits :: nat
  misses :: nat
  nocache :: nat
  runs :: nat

text \<open>What \<open>original_func(*args, **kwargs)\<close> does when it is called: it returns a value,
  raises \<open>NoCacheCondition(function_value)\<close>, or raises something else. It does not touch the
  cache directory.\<close>

datatype outcome = Returns val | RaisesNoCacheCondition val | RaisesOther

text \<open>A keyword argument named like a parameter of the callee makes the call itself raise
  \<open>TypeError\<close> (multiple values for the argument).\<close>

definition binds_twice :: "string list \<Rightarrow> (string \<times> string) list \<Rightarrow> bool" where
  "binds_twice params kws = list_ex (\<lambda>kv. fst kv \<in> set params) kws"

definition cache_exists_params :: "string list" where
  "cache_exists_params = [''cache_metadata'', ''function_name'', ''except_arg_names'']"

definition cache_function_value_params :: "string list" where
  "cache_function_value_params =
     [''function_value'', ''n_days_to_cache'', ''cache_metadata'', ''rename_np_memmap_file'',
      ''function_name'']"

text \<open>The \<open>else\<close> branch of the \<open>try\<close> in \<open>wrapper\<close>: the computation returned
  \<open>function_value\<close>.\<close>

definition store_result ::
  "config \<Rightarrow> stats \<Rightarrow> world \<Rightarrow> string list \<Rightarrow> (string \<times> string) list \<Rightarrow> val
     \<Rightarrow> (error + val) \<times> stats \<times> world" where
  "store_result cfg st w pos kws function_value =
     (if except_arg_names cfg \<noteq> [] \<and> pos \<noteq> [] then (Inl AssertionError, st, w)
      else
        let kws' = strip_excluded (except_arg_names cfg) kws;
            loaded = load_cache_metadata_json w
        in if binds_twice cache_function_value_params kws' then (Inl TypeError, st, snd loaded)
           else
             (case cache_function_value function_value (n_days_to_cache cfg) (fst loaded)
                     (rename_np_memmap_file cfg) (func_name cfg) pos kws' (snd loaded) of
                (Inl e, w1) \<Rightarrow> (Inl e, st, w1)
              | (Inr new_filepath, w1) \<Rightarrow>
                  (case function_value of
                     VArr (Some old_file_path) meta d \<Rightarrow>
                       if rename_np_memmap_file cfg
                       then (case rename_np_memmap old_file_path new_filepath meta w1 of
                               (r, w2) \<Rightarrow> (r, st, w2))
                       else (Inr function_value, st, w1)
                   | _ \<Rightarrow> (Inr function_value, st, w1))))"

text \<open>After a miss: \<open>misses += 1\<close>, then the \<open>try\<close> around \<open>original_func\<close>.\<close>

definition compute_and_store ::
  "config \<Rightarrow> stats \<Rightarrow> world \<Rightarrow> string list \<Rightarrow> (string \<times> string) list \<Rightarrow> outcome
     \<Rightarrow> (error + val) \<times> stats \<times> world" where
  "compute_and_store cfg st w pos kws body =
     (let st1 = st\<lparr>misses := misses st + 1, runs := runs st + 1\<rparr> in
      case body of
        RaisesNoCacheCondition v \<Rightarrow> (Inr v, st1\<lparr>nocache := nocache st1 + 1\<rparr>, w)
      | RaisesOther \<Rightarrow> (Inl ComputationError, st1, w)
      | Returns function_value \<Rightarrow> store_result cfg st1 w pos kws function_value)"

definition wrapper ::
  "config \<Rightarrow> stats \<Rightarrow> world \<Rightarrow> string list \<Rightarrow> (string \<times> string) list \<Rightarrow> outcome
     \<Rightarrow> (error + val) \<times> stats \<times> world" where
  "wrapper cfg st w pos kws body =
     (let loaded = load_cache_metadata_json w in
      if binds_twice cache_exists_params kws then (Inl TypeError, st, snd loaded)
      else
        case cache_exists (snd loaded) (fst loaded) (func_name cfg) (except_arg_names cfg) pos kws of
          (Inl e, w1) \<Rightarrow> (Inl e, st, w1)
        | (Inr (already_cached, function_value), w1) \<Rightarrow>
            if already_cached then (Inr function_value, st\<lparr>hits := hits st + 1\<rparr>, w1)
            else compute_and_store cfg st w1 pos kws body)"

section \<open>Eviction: \<open>delete_old_disk_caches\<close>\<close>

text \<open>The inner loop over the rows of one function; the state is \<open>to_keep\<close>,
  \<open>cache_changed\<close> and the files.\<close>

fun sweep_rows :: "entry list \<Rightarrow> entry list \<Rightarrow> bool \<Rightarrow> world \<Rightarrow> (error + entry list \<times> bool) \<times> world" where
  "sweep_rows [] to_keep cache_changed w = (Inr (to_keep, cache_changed), w)"
| "sweep_rows (function_cache # rest) to_keep cache_changed w =
     (case max_age_days function_cache of
        None \<Rightarrow> (Inl TypeError, w)
      | Some max_age \<Rightarrow>
          if \<not> file_exists w (join_path DISK_CACHE_DIR (file_name function_cache))
          then sweep_rows rest to_keep True w
          else
            (case get_age_of_file w (join_path DISK_CACHE_DIR (file_name function_cache)) of
               Inl e \<Rightarrow> (Inl e, w)
             | Inr age \<Rightarrow>
                 if \<not> is_stale age max_age
                 then sweep_rows rest (to_keep @ [function_cache]) cache_changed w
                 else sweep_rows rest to_keep True
                        (os_remove (join_path DISK_CACHE_DIR (file_name function_cache)) w)))"

text \<open>The outer loop over \<open>cache_metadata.items()\<close>, updating \<open>new_cache_metadata\<close>:
  \<^verbatim>\<open>
        if to_keep:
            new_cache_metadata[function_name] = to_keep
  \<close>
\<close>

fun sweep_items ::
  "(string \<times> reg_val) list \<Rightarrow> registry_doc \<Rightarrow> bool \<Rightarrow> world \<Rightarrow> (error + registry_doc \<times> bool) \<times> world" where
  "sweep_items [] new_cache_metadata cache_changed w = (Inr (new_cache_metadata, cache_changed), w)"
| "sweep_items ((function_name, rv) # rest) new_cache_metadata cache_changed w =
     (if function_name = TOTAL_NUMCACHE_KEY then sweep_items rest new_cache_metadata cache_changed w
      else
        case rv of
          Count c \<Rightarrow> (Inl TypeError, w)
        | Rows function_caches \<Rightarrow>
            (case sweep_rows function_caches [] cache_changed w of
               (Inl e, w1) \<Rightarrow> (Inl e, w1)
             | (Inr (to_keep, changed1), w1) \<Rightarrow>
                 sweep_items rest
                   (if to_keep \<noteq> [] then AList.update function_name (Rows to_keep) new_cache_metadata
                    else new_cache_metadata)
                   changed1 w1))"

definition delete_old_disk_caches :: "world \<Rightarrow> error option \<times> world" where
  "delete_old_disk_caches w =
     (let loaded = load_cache_metadata_json w in
      case sweep_items (fst loaded) (fst loaded) False (snd loaded) of
        (Inl e, w1) \<Rightarrow> (Some e, w1)
      | (Inr (new_cache_metadata, cache_changed), w1) \<Rightarrow>
          (None, if cache_changed then write_cache_file new_cache_metadata w1 else w1))"

section \<open>Equality of values\<close>



section \<open>Concrete inputs\<close>

text \<open>A wrapper for a function \<open>f\<close> with a TTL of two days, fresh counters, and a cache
  directory that holds one artifact for the call \<open>f()\<close>, \<open>age_days\<close> days old, with its registry row.\<close>

definition cfg_f :: config where
  "cfg_f = \<lparr>func_name = ''f'', n_days_to_cache = Some 2, except_arg_names = [],
            rename_np_memmap_file = True\<rparr>"

definition st0 :: stats where
  "st0 = \<lparr>hits = 0, misses = 0, nocache = 0, runs = 0\<rparr>"

definition row_f :: "int option \<Rightarrow> entry" where
  "row_f ttl = \<lparr>args = ''()'', kwargs = ''{}'', file_name = derive_key ''f'' ''()'' ''{}'' @ ''.pkl'',
               max_age_days = ttl\<rparr>"

definition world_f :: "int option \<Rightarrow> int \<Rightarrow> content \<Rightarrow> world" where
  "world_f ttl age_days c =
     \<lparr>now = 1000000,
      registry = Some [(TOTAL_NUMCACHE_KEY, Count 1), (''f'', Rows [row_f ttl])],
      files = [file_path_pkl ''f'' [] [] \<mapsto> \<lparr>mtime = 1000000 - age_days * 86400, content = c\<rparr>],
      misread = (\<lambda>p m. None)\<rparr>"

text \<open>The same directory with any rows for \<open>f\<close> in the registry.\<close>

definition world_rows :: "entry list \<Rightarrow> int \<Rightarrow> content \<Rightarrow> world" where
  "world_rows rows age_days c =
     \<lparr>now = 1000000,
      registry = Some [(TOTAL_NUMCACHE_KEY, Count (int (length rows))), (''f'', Rows rows)],
      files = [file_path_pkl ''f'' [] [] \<mapsto> \<lparr>mtime = 1000000 - age_days * 86400, content = c\<rparr>],
      misread = (\<lambda>p m. None)\<rparr>"





section \<open>Results\<close>

lemma open_locked_loop_Some_D:
  assumes "open_locked_loop c ok m i e n s = Some r"
  shows "\<not> ((\<forall>k. c k) \<and> e < m)"
  by (rule open_locked_loop.raw_induct
        [where P = "\<lambda>c ok m i e n s r. \<not> ((\<forall>k. c k) \<and> e < m)", OF _ assms])
     (fastforce split: if_splits)

lemma open_locked_loop_contended:
  "0 < max_wait \<Longrightarrow> open_locked_loop (\<lambda>_. True) ok max_wait i 0 n s = None"
  using open_locked_loop_Some_D [of "\<lambda>_. True" ok max_wait i 0 n s]
  by (cases "open_locked_loop (\<lambda>_. True) ok max_wait i 0 n s") auto

text \<open>
  C1 (the code departs from the claim). With the lock contended at every attempt,
  \<open>open_locked\<close> under the default maximum wait does not return at all: it neither acquires
  the lock nor raises \<open>LockTimeout\<close>, because \<open>elapsed\<close> stays \<open>0\<close>.
\<close>

theorem open_locked_contended_never_returns:
  "open_locked (\<lambda>_. True) can_open = None
   \<and> open_exclusive (\<lambda>_. True) can_open = None
   \<and> open_shared (\<lambda>_. True) can_open = None"
  unfolding open_exclusive_def open_shared_def open_locked_def DISK_CACHE_LOCK_MAX_WAIT_def
  by (simp add: open_locked_loop_contended)

text \<open>For comparison: when the lock is free at the fourth attempt, the loop acquires it
  there, after three sleeps.\<close>

lemma open_locked_acquires_when_free:
  "open_locked (\<lambda>n. n < 3) True = Some (Inr (3, 3 / 10))"
  by (simp add: open_locked_def DISK_CACHE_LOCK_MAX_WAIT_def DISK_CACHE_LOCK_INTERVAL_def
        open_locked_loop.simps)

subsection \<open>Lookup\<close>

lemma lookup_artifact_frame:
  "registry (snd (lookup_artifact w p m)) = registry w
   \<and> now (snd (lookup_artifact w p m)) = now w
   \<and> (snd (lookup_artifact w p m) = w \<or> snd (lookup_artifact w p m) = os_remove p w)"
  by (simp add: lookup_artifact_def os_remove_def split: sum.splits)

lemma cache_exists_world:
  "snd (cache_exists w md fn excl pos kws) = w
   \<or> (\<exists>p. snd (cache_exists w md fn excl pos kws) = os_remove p w)"
proof -
  have "snd (cache_exists w md fn excl pos kws) = w
        \<or> (\<exists>p m. snd (cache_exists w md fn excl pos kws) = snd (lookup_artifact w p m))"
    by (auto simp: cache_exists_def Let_def split: option.splits sum.splits)
  then show ?thesis
  proof
    assume "snd (cache_exists w md fn excl pos kws) = w"
    then show ?thesis by simp
  next
    assume "\<exists>p m. snd (cache_exists w md fn excl pos kws) = snd (lookup_artifact w p m)"
    then obtain p m where e: "snd (cache_exists w md fn excl pos kws) = snd (lookup_artifact w p m)"
      by blast
    from lookup_artifact_frame [of w p m] show ?thesis
      unfolding e by blast
  qed
qed

text \<open>
  C9. Whatever \<open>cache_exists\<close> returns or raises, the registry file is as before; of the
  other files at most one has been removed.
\<close>

theorem cache_exists_registry_unchanged:
  "registry (snd (cache_exists w md fn excl pos kws)) = registry w
   \<and> (files (snd (cache_exists w md fn excl pos kws)) = files w
      \<or> (\<exists>p. files (snd (cache_exists w md fn excl pos kws)) = (files w)(p := None)))"
  using cache_exists_world [of w md fn excl pos kws]
  by (auto simp: os_remove_def)

text \<open>
  C7. With excluded argument names configured and a positional argument passed, the assertion
  fails in \<open>cache_exists\<close> and in the store path after the computation; a call of the wrapper
  raises before the computation runs (a \<open>TypeError\<close> from binding the keyword arguments, if
  that fails first), with the counters as they were.
\<close>

theorem exclusion_precondition:
  assumes "except_arg_names cfg \<noteq> []" and "pos \<noteq> []"
  shows "cache_exists w md (func_name cfg) (except_arg_names cfg) pos kws = (Inl AssertionError, w)
       \<and> store_result cfg st w pos kws v = (Inl AssertionError, st, w)
       \<and> wrapper cfg st w pos kws body =
           (Inl (if binds_twice cache_exists_params kws then TypeError else AssertionError), st,
            snd (load_cache_metadata_json w))"
  using assms by (simp add: cache_exists_def store_result_def wrapper_def Let_def)

theorem exclusion_precondition_witness:
  "except_arg_names (cfg_f\<lparr>except_arg_names := [''conn'']\<rparr>) \<noteq> [] \<and> [''1''] \<noteq> ([] :: string list)
   \<and> cache_exists (world_f (Some 2) 0 Garbage) [] ''f'' [''conn''] [''1''] [(''conn'', ''5'')]
       = (Inl AssertionError, world_f (Some 2) 0 Garbage)
   \<and> store_result (cfg_f\<lparr>except_arg_names := [''conn'']\<rparr>) st0 (world_f (Some 2) 0 Garbage)
         [''1''] [(''conn'', ''5'')] (VObj 7)
       = (Inl AssertionError, st0, world_f (Some 2) 0 Garbage)
   \<and> wrapper (cfg_f\<lparr>except_arg_names := [''conn'']\<rparr>) st0 (world_f (Some 2) 0 Garbage)
         [''1''] [(''conn'', ''5'')] (Returns (VObj 7))
       = (Inl AssertionError, st0, world_f (Some 2) 0 Garbage)"
  using exclusion_precondition
    [of "cfg_f\<lparr>except_arg_names := [''conn'']\<rparr>" "[''1'']" "world_f (Some 2) 0 Garbage" "[]"
        "[(''conn'', ''5'')]" st0 "VObj 7" "Returns (VObj 7)"]
  by (simp add: cfg_f_def binds_twice_def cache_exists_params_def load_cache_metadata_json_def
        world_f_def)

lemma ends_with_append: "ends_with suffix (xs @ suffix)"
  by (simp add: ends_with_def)

lemma join_path_append: "suffix \<noteq> [] \<Longrightarrow> \<exists>pre. join_path d (k @ suffix) = pre @ suffix"
  by (cases k; cases suffix) (auto simp: join_path_def)

lemma ends_with_npy_path: "ends_with ''.npy'' (file_path_npy fn pos kws)"
proof -
  obtain pre where "file_path_npy fn pos kws = pre @ ''.npy''"
    unfolding file_path_npy_def using join_path_append [of "''.npy''"] by blast
  then show ?thesis by (simp add: ends_with_append)
qed

lemma not_ends_with_npy_pkl_path: "\<not> ends_with ''.npy'' (file_path_pkl fn pos kws)"
proof -
  obtain pre where "file_path_pkl fn pos kws = pre @ ''.pkl''"
    unfolding file_path_pkl_def using join_path_append [of "''.pkl''"] by blast
  then show ?thesis by (simp add: ends_with_def)
qed

lemma npy_neq_pkl: "file_path_npy fn pos kws \<noteq> file_path_pkl fn pos kws"
  using ends_with_npy_path [of fn pos kws] not_ends_with_npy_pkl_path [of fn pos kws] by auto

lemma find_max_age_first:
  assumes "\<forall>r \<in> set pre. \<not> (args r = a \<and> kwargs r = k)" and "args e = a" and "kwargs e = k"
  shows "find_max_age (pre @ e # post) a k =
           (case max_age_days e of None \<Rightarrow> Inl TypeError | Some m \<Rightarrow> Inr m)"
  using assms by (induction pre) auto

text \<open>
  C5 (as amended). Let \<open>e\<close> be the row that the lookup finds for the call: the first row of
  the function with the canonical strings of the call, and let the artifact be the file that
  the lookup picks (the \<open>.npy\<close> path if it exists, else the \<open>.pkl\<close> path). If
  \<open>max_age_days\<close> of \<open>e\<close> is 2 and the artifact was modified three days ago, \<open>cache_exists\<close> reports a miss and has removed the artifact.
  If \<open>max_age_days\<close> of \<open>e\<close> is \<open>UNLIMITED_CACHE_AGE\<close>, \<open>cache_exists\<close> leaves every file in
  place, at any age.
\<close>

theorem lookup_ttl_expiry_and_unlimited:
  assumes rows: "map_of md fn = Some (Rows (pre @ e # post))"
    and first: "\<forall>r \<in> set pre. \<not> (args r = str_tuple pos \<and> kwargs r = str_dict (strip_excluded excl kws))"
    and sig: "args e = str_tuple pos \<and> kwargs e = str_dict (strip_excluded excl kws)"
    and art: "artifact = (if file_exists w (file_path_npy fn pos (strip_excluded excl kws))
                          then file_path_npy fn pos (strip_excluded excl kws)
                          else file_path_pkl fn pos (strip_excluded excl kws))"
  shows "(max_age_days e = Some 2 \<and> (excl = [] \<or> pos = []) \<and> files w artifact = Some f
            \<and> mtime f = now w - 3 * 86400
          \<longrightarrow> cache_exists w md fn excl pos kws = (Inr (False, VNone), os_remove artifact w)
              \<and> \<not> file_exists (snd (cache_exists w md fn excl pos kws)) artifact)
       \<and> (max_age_days e = Some UNLIMITED_CACHE_AGE
          \<longrightarrow> snd (cache_exists w md fn excl pos kws) = w)"
proof (intro conjI impI)
  let ?k = "strip_excluded excl kws"
  assume h: "max_age_days e = Some 2 \<and> (excl = [] \<or> pos = []) \<and> files w artifact = Some f
            \<and> mtime f = now w - 3 * 86400"
  have ma: "rows_max_age (Rows (pre @ e # post)) (str_tuple pos) (str_dict ?k) = Inr 2"
    using find_max_age_first [OF first] sig h by (simp add: rows_max_age_def)
  have ex: "\<not> (\<not> file_exists w (file_path_npy fn pos ?k) \<and> \<not> file_exists w (file_path_pkl fn pos ?k))"
    using h art by (auto simp: file_exists_def split: if_splits)
  have la: "lookup_artifact w artifact 2 = (Inr (False, VNone), os_remove artifact w)"
    using h by (simp add: lookup_artifact_def get_age_of_file_def is_stale_def UNLIMITED_CACHE_AGE_def)
  show ce: "cache_exists w md fn excl pos kws = (Inr (False, VNone), os_remove artifact w)"
    using h rows ma ex la art by (auto simp: cache_exists_def Let_def)
  show "\<not> file_exists (snd (cache_exists w md fn excl pos kws)) artifact"
    unfolding ce by (simp add: file_exists_def os_remove_def)
next
  let ?k = "strip_excluded excl kws"
  assume h: "max_age_days e = Some UNLIMITED_CACHE_AGE"
  have ma: "rows_max_age (Rows (pre @ e # post)) (str_tuple pos) (str_dict ?k) = Inr UNLIMITED_CACHE_AGE"
    using find_max_age_first [OF first] sig h by (simp add: rows_max_age_def)
  have la: "snd (lookup_artifact w p UNLIMITED_CACHE_AGE) = w" for p
    by (simp add: lookup_artifact_def is_stale_def split: sum.splits)
  show "snd (cache_exists w md fn excl pos kws) = w"
    using rows ma la by (simp add: cache_exists_def Let_def)
qed

lemma pkl_only_exists:
  "file_exists (world_f ttl age c) (file_path_pkl ''f'' [] [])
   \<and> \<not> file_exists (world_f ttl age c) (file_path_npy ''f'' [] [])"
  using npy_neq_pkl [of "''f''" "[]" "[]"] by (auto simp: world_f_def file_exists_def)

theorem lookup_ttl_expiry_and_unlimited_witness:
  "max_age_days (row_f (Some 2)) = Some 2
   \<and> cache_exists (world_f (Some 2) 3 (Pickle (VObj 7)))
       [(TOTAL_NUMCACHE_KEY, Count 1), (''f'', Rows [row_f (Some 2)])] ''f'' [] [] []
     = (Inr (False, VNone), os_remove (file_path_pkl ''f'' [] []) (world_f (Some 2) 3 (Pickle (VObj 7))))
   \<and> snd (cache_exists (world_f (Some 0) 4000 (Pickle (VObj 7)))
       [(TOTAL_NUMCACHE_KEY, Count 1), (''f'', Rows [row_f (Some 0)])] ''f'' [] [] [])
     = world_f (Some 0) 4000 (Pickle (VObj 7))"
proof -
  have a: "cache_exists (world_f (Some 2) 3 (Pickle (VObj 7)))
       [(TOTAL_NUMCACHE_KEY, Count 1), (''f'', Rows [row_f (Some 2)])] ''f'' [] [] []
     = (Inr (False, VNone), os_remove (file_path_pkl ''f'' [] []) (world_f (Some 2) 3 (Pickle (VObj 7))))"
    using lookup_ttl_expiry_and_unlimited
      [of "[(TOTAL_NUMCACHE_KEY, Count 1), (''f'', Rows [row_f (Some 2)])]" "''f''" "[]"
          "row_f (Some 2)" "[]" "[]" "[]" "[]" "file_path_pkl ''f'' [] []"
          "world_f (Some 2) 3 (Pickle (VObj 7))"
          "\<lparr>mtime = 1000000 - 3 * 86400, content = Pickle (VObj 7)\<rparr>"]
      pkl_only_exists [of "Some 2" 3 "Pickle (VObj 7)"]
    by (simp add: TOTAL_NUMCACHE_KEY_def row_f_def strip_excluded_def str_dict_def)
       (simp add: world_f_def)
  have b: "snd (cache_exists (world_f (Some 0) 4000 (Pickle (VObj 7)))
       [(TOTAL_NUMCACHE_KEY, Count 1), (''f'', Rows [row_f (Some 0)])] ''f'' [] [] [])
     = world_f (Some 0) 4000 (Pickle (VObj 7))"
    using lookup_ttl_expiry_and_unlimited
      [of "[(TOTAL_NUMCACHE_KEY, Count 1), (''f'', Rows [row_f (Some 0)])]" "''f''" "[]"
          "row_f (Some 0)" "[]" "[]" "[]" "[]" "file_path_pkl ''f'' [] []"
          "world_f (Some 0) 4000 (Pickle (VObj 7))"]
      pkl_only_exists [of "Some 0" 4000 "Pickle (VObj 7)"]
    by (simp add: TOTAL_NUMCACHE_KEY_def row_f_def strip_excluded_def str_dict_def
          UNLIMITED_CACHE_AGE_def)
  from a b show ?thesis by (simp add: row_f_def)
qed


subsection \<open>Artifact backend\<close>

text \<open>
  What \<open>unpickle_big_data\<close> returns. For a path ending in \<open>.npy\<close> it never raises, and
  it returns \<open>None\<close> when the file is missing, or has no sidecar and holds no array. For any other path a failed
  \<open>pickle.load\<close> is followed by the chunked re-read, whose result, value or exception, is
  the result of the call.
\<close>

lemma unpickle_big_data_outcomes:
  "(ends_with ''.npy'' p \<longrightarrow>
      (\<exists>v. unpickle_big_data w p = Inr v)
      \<and> (files w p = None
           \<or> (\<not> file_exists w (p @ ''.json'') \<and> (\<exists>f. files w p = Some f \<and> content f = Garbage))
          \<longrightarrow> unpickle_big_data w p = Inr VNone))
   \<and> (\<not> ends_with ''.npy'' p \<longrightarrow>
      unpickle_big_data w p = (case pickle_load w p of Inr v \<Rightarrow> Inr v | Inl e \<Rightarrow> chunked_reload w p)
      \<and> ((case files w p of None \<Rightarrow> False
           | Some f \<Rightarrow> (case content f of Pickle v \<Rightarrow> False | _ \<Rightarrow> True))
          \<longrightarrow> unpickle_big_data w p = Inl UnpicklingError))"
  by (auto simp: unpickle_big_data_def unpickle_first_def load_np_memmap_def load_numpy_def
        np_memmap_def np_memmap_by_name_def pickle_load_def chunked_reload_def file_exists_def
      split: option.splits content.splits sum.splits arr_meta.splits)

lemma unpickle_big_data_outcomes_example:
  "ends_with ''.npy'' ''disk_cache/a.npy''
   \<and> unpickle_big_data
         \<lparr>now = 0, registry = None,
          files = [''disk_cache/a.npy'' \<mapsto> \<lparr>mtime = 0, content = Garbage\<rparr>],
          misread = (\<lambda>p m. None)\<rparr>
         ''disk_cache/a.npy'' = Inr VNone
   \<and> \<not> ends_with ''.npy'' ''disk_cache/a.pkl''
   \<and> unpickle_big_data
         \<lparr>now = 0, registry = None,
          files = [''disk_cache/a.pkl'' \<mapsto> \<lparr>mtime = 0, content = Garbage\<rparr>],
          misread = (\<lambda>p m. None)\<rparr>
         ''disk_cache/a.pkl'' = Inl UnpicklingError"
proof -
  have n: "ends_with ''.npy'' ''disk_cache/a.npy''" and p: "\<not> ends_with ''.npy'' ''disk_cache/a.pkl''"
    by (simp_all add: ends_with_def)
  have a: "unpickle_big_data
         \<lparr>now = 0, registry = None,
          files = [''disk_cache/a.npy'' \<mapsto> \<lparr>mtime = 0, content = Garbage\<rparr>],
          misread = (\<lambda>p m. None)\<rparr>
         ''disk_cache/a.npy'' = Inr VNone"
    using n unpickle_big_data_outcomes
      [of "''disk_cache/a.npy''"
        "\<lparr>now = 0, registry = None,
          files = [''disk_cache/a.npy'' \<mapsto> \<lparr>mtime = 0, content = Garbage\<rparr>],
          misread = (\<lambda>p m. None)\<rparr>"]
    by (simp add: file_exists_def)
  have b: "unpickle_big_data
         \<lparr>now = 0, registry = None,
          files = [''disk_cache/a.pkl'' \<mapsto> \<lparr>mtime = 0, content = Garbage\<rparr>],
          misread = (\<lambda>p m. None)\<rparr>
         ''disk_cache/a.pkl'' = Inl UnpicklingError"
    using p unpickle_big_data_outcomes
      [of "''disk_cache/a.pkl''"
        "\<lparr>now = 0, registry = None,
          files = [''disk_cache/a.pkl'' \<mapsto> \<lparr>mtime = 0, content = Garbage\<rparr>],
          misread = (\<lambda>p m. None)\<rparr>"]
    by (simp add: pickle_load_def chunked_reload_def)
  from n p a b show ?thesis by simp
qed

lemma world_f_pickle_fails:
  "unpickle_big_data (world_f ttl age Garbage) (file_path_pkl ''f'' [] []) = Inl UnpicklingError"
  using not_ends_with_npy_pkl_path [of "''f''" "[]" "[]"]
  by (simp add: unpickle_big_data_def unpickle_first_def pickle_load_def chunked_reload_def
        world_f_def)

lemma cache_exists_world_f:
  "cache_exists (world_f (Some ttl) age c)
      [(TOTAL_NUMCACHE_KEY, Count 1), (''f'', Rows [row_f (Some ttl)])] ''f'' [] [] [] =
     lookup_artifact (world_f (Some ttl) age c) (file_path_pkl ''f'' [] []) ttl"
  using pkl_only_exists [of "Some ttl" age c]
  by (simp add: cache_exists_def strip_excluded_def TOTAL_NUMCACHE_KEY_def rows_max_age_def
        row_f_def str_dict_def)

lemma load_world_f:
  "load_cache_metadata_json (world_f ttl age c) =
     ([(TOTAL_NUMCACHE_KEY, Count 1), (''f'', Rows [row_f ttl])], world_f ttl age c)"
  by (simp add: load_cache_metadata_json_def world_f_def)

lemma age_world_f:
  "get_age_of_file (world_f ttl age c) (file_path_pkl ''f'' [] []) = Inr age"
  by (simp add: get_age_of_file_def world_f_def)

text \<open>
  C2 (the code departs from the claim). For a \<open>.pkl\<close> artifact that does not unpickle, the
  chunked re-read fails as the first load did, and its exception leaves \<open>unpickle_big_data\<close>,
  \<open>cache_exists\<close> and the wrapper: the caller of \<open>f()\<close> gets the exception, not a miss, and
  \<open>f\<close> is not run.
\<close>

theorem corrupt_pickle_raises:
  "unpickle_big_data (world_f (Some 2) 0 Garbage) (file_path_pkl ''f'' [] []) = Inl UnpicklingError
   \<and> wrapper cfg_f st0 (world_f (Some 2) 0 Garbage) [] [] (Returns (VObj 7))
       = (Inl UnpicklingError, st0, world_f (Some 2) 0 Garbage)"
proof -
  have "lookup_artifact (world_f (Some 2) 0 Garbage) (file_path_pkl ''f'' [] []) 2
          = (Inl UnpicklingError, world_f (Some 2) 0 Garbage)"
    by (simp add: lookup_artifact_def age_world_f is_stale_def world_f_pickle_fails)
  then show ?thesis
    by (simp add: world_f_pickle_fails wrapper_def load_world_f cfg_f_def binds_twice_def
          cache_exists_world_f)
qed

subsection \<open>Eviction\<close>

text \<open>
  C4 (the code departs from the claim). When every row of a function is dropped, \<open>to_keep\<close>
  is empty and \<open>new_cache_metadata[function_name]\<close> is not assigned: the registry written back
  still has the rows. First input: the only row of \<open>f\<close> names a file that does not exist.
  Second input: its artifact is three days old with a TTL of two days; the sweep removes the
  file and keeps the row.
\<close>

theorem sweep_keeps_rows_of_emptied_function:
  "delete_old_disk_caches
     \<lparr>now = 0, registry = Some [(TOTAL_NUMCACHE_KEY, Count 1), (''f'', Rows [row_f (Some 2)])],
      files = Map.empty, misread = (\<lambda>p m. None)\<rparr>
     = (None,
        \<lparr>now = 0, registry = Some [(TOTAL_NUMCACHE_KEY, Count 1), (''f'', Rows [row_f (Some 2)])],
         files = Map.empty, misread = (\<lambda>p m. None)\<rparr>)
   \<and> delete_old_disk_caches (world_f (Some 2) 3 (Pickle (VObj 7)))
     = (None, os_remove (file_path_pkl ''f'' [] []) (world_f (Some 2) 3 (Pickle (VObj 7))))
   \<and> registry (os_remove (file_path_pkl ''f'' [] []) (world_f (Some 2) 3 (Pickle (VObj 7))))
     = Some [(TOTAL_NUMCACHE_KEY, Count 1), (''f'', Rows [row_f (Some 2)])]
   \<and> \<not> file_exists (os_remove (file_path_pkl ''f'' [] []) (world_f (Some 2) 3 (Pickle (VObj 7))))
         (join_path DISK_CACHE_DIR (file_name (row_f (Some 2))))"
proof -
  have p: "join_path DISK_CACHE_DIR (file_name (row_f ttl)) = file_path_pkl ''f'' [] []" for ttl
    by (simp add: row_f_def file_path_pkl_def str_dict_def)
  have m: "max_age_days (row_f ttl) = ttl" for ttl
    by (simp add: row_f_def)
  have a: "delete_old_disk_caches
     \<lparr>now = 0, registry = Some [(TOTAL_NUMCACHE_KEY, Count 1), (''f'', Rows [row_f (Some 2)])],
      files = Map.empty, misread = (\<lambda>p m. None)\<rparr>
     = (None,
        \<lparr>now = 0, registry = Some [(TOTAL_NUMCACHE_KEY, Count 1), (''f'', Rows [row_f (Some 2)])],
         files = Map.empty, misread = (\<lambda>p m. None)\<rparr>)"
    by (simp add: delete_old_disk_caches_def load_cache_metadata_json_def TOTAL_NUMCACHE_KEY_def
          file_exists_def write_cache_file_def row_f_def)
  have b: "delete_old_disk_caches (world_f (Some 2) 3 (Pickle (VObj 7)))
     = (None, os_remove (file_path_pkl ''f'' [] []) (world_f (Some 2) 3 (Pickle (VObj 7))))"
  proof -
    have "sweep_rows [row_f (Some 2)] [] False (world_f (Some 2) 3 (Pickle (VObj 7)))
            = (Inr ([], True), os_remove (file_path_pkl ''f'' [] []) (world_f (Some 2) 3 (Pickle (VObj 7))))"
      using pkl_only_exists [of "Some 2" 3 "Pickle (VObj 7)"]
      by (simp add: m p age_world_f is_stale_def UNLIMITED_CACHE_AGE_def)
    then show ?thesis
      by (simp add: delete_old_disk_caches_def load_world_f TOTAL_NUMCACHE_KEY_def)
         (simp add: write_cache_file_def os_remove_def world_f_def TOTAL_NUMCACHE_KEY_def)
  qed
  show ?thesis
    using a b by (simp add: p os_remove_def world_f_def file_exists_def)
qed

subsection \<open>Suppressed calls\<close>

text \<open>
  C6 (as amended). When the lookup misses and the computation raises
  \<open>NoCacheCondition(v)\<close>, the wrapper returns \<open>v\<close>, adds one to \<open>misses\<close> and to \<open>nocache\<close> and
  leaves \<open>hits\<close>; the registry file holds the document loaded at the start of the call, no
  file has been written, and at most the stale artifact of this call has been removed by the
  lookup.
\<close>

theorem suppressed_call:
  assumes nb: "\<not> binds_twice cache_exists_params kws"
    and miss: "cache_exists (snd (load_cache_metadata_json w)) (fst (load_cache_metadata_json w))
                 (func_name cfg) (except_arg_names cfg) pos kws = (Inr (False, x), w1)"
  shows "wrapper cfg st w pos kws (RaisesNoCacheCondition v) =
           (Inr v, st\<lparr>misses := misses st + 1, nocache := nocache st + 1, runs := runs st + 1\<rparr>, w1)
       \<and> registry w1 = Some (fst (load_cache_metadata_json w))
       \<and> (files w1 = files w \<or> (\<exists>p. files w1 = (files w)(p := None)))"
proof -
  let ?l = "load_cache_metadata_json w"
  have l: "registry (snd ?l) = Some (fst ?l) \<and> files (snd ?l) = files w"
    by (simp add: load_cache_metadata_json_def write_cache_file_def split: option.splits)
  have "w1 = snd ?l \<or> (\<exists>p. w1 = os_remove p (snd ?l))"
    using cache_exists_world [of "snd ?l" "fst ?l" "func_name cfg" "except_arg_names cfg" pos kws] miss
    by simp
  then have f: "registry w1 = Some (fst ?l) \<and> (files w1 = files w \<or> (\<exists>p. files w1 = (files w)(p := None)))"
    using l by (auto simp: os_remove_def)
  have "wrapper cfg st w pos kws (RaisesNoCacheCondition v) =
           (Inr v, st\<lparr>misses := misses st + 1, nocache := nocache st + 1, runs := runs st + 1\<rparr>, w1)"
    using nb miss by (simp add: wrapper_def compute_and_store_def Let_def)
  with f show ?thesis by simp
qed

lemma stale_lookup_world_f:
  "lookup_artifact (world_f (Some 2) 3 c) (file_path_pkl ''f'' [] []) 2
     = (Inr (False, VNone), os_remove (file_path_pkl ''f'' [] []) (world_f (Some 2) 3 c))"
  by (simp add: lookup_artifact_def age_world_f is_stale_def UNLIMITED_CACHE_AGE_def)

theorem suppressed_call_witness:
  "\<not> binds_twice cache_exists_params []
   \<and> wrapper cfg_f st0 (world_f (Some 2) 3 (Pickle (VObj 1))) [] [] (RaisesNoCacheCondition (VObj 7))
       = (Inr (VObj 7), \<lparr>hits = 0, misses = 1, nocache = 1, runs = 1\<rparr>,
          os_remove (file_path_pkl ''f'' [] []) (world_f (Some 2) 3 (Pickle (VObj 1))))
   \<and> registry (os_remove (file_path_pkl ''f'' [] []) (world_f (Some 2) 3 (Pickle (VObj 1))))
       = Some [(TOTAL_NUMCACHE_KEY, Count 1), (''f'', Rows [row_f (Some 2)])]"
  using suppressed_call
    [of "[]" "world_f (Some 2) 3 (Pickle (VObj 1))" cfg_f "[]" VNone
        "os_remove (file_path_pkl ''f'' [] []) (world_f (Some 2) 3 (Pickle (VObj 1)))" st0 "VObj 7"]
  by (simp add: binds_twice_def load_world_f cfg_f_def cache_exists_world_f stale_lookup_world_f
        st0_def)

text \<open>
  C6, the claim as stated fails: on a call whose artifact is stale, the suppressed computation
  leaves \<open>misses\<close> at 1 (from 0), not only \<open>nocache\<close>, and the artifact file is gone.
\<close>

theorem suppressed_call_counts_a_miss:
  "wrapper cfg_f st0 (world_f (Some 2) 3 (Pickle (VObj 1))) [] [] (RaisesNoCacheCondition (VObj 7))
     = (Inr (VObj 7), \<lparr>hits = 0, misses = 1, nocache = 1, runs = 1\<rparr>,
        os_remove (file_path_pkl ''f'' [] []) (world_f (Some 2) 3 (Pickle (VObj 1))))
   \<and> misses st0 = 0
   \<and> file_exists (world_f (Some 2) 3 (Pickle (VObj 1))) (file_path_pkl ''f'' [] [])
   \<and> \<not> file_exists (os_remove (file_path_pkl ''f'' [] []) (world_f (Some 2) 3 (Pickle (VObj 1))))
         (file_path_pkl ''f'' [] [])"
  by (simp add: wrapper_def binds_twice_def load_world_f cfg_f_def cache_exists_world_f
        stale_lookup_world_f st0_def compute_and_store_def)
     (simp add: file_exists_def os_remove_def world_f_def)


subsection \<open>Key deriver\<close>

lemma replicate_numeral_unfold: "replicate (numeral k) x = x # replicate (pred_numeral k) x"
  by (simp add: numeral_eq_Suc)

lemmas sha1_eval = sha1_hex_def sha1_pad_def len_bytes_def sha1_block_def
  sha1_init_def sha1_k_def sha1_f_def rotl32_def hex_word_def hex_digit_def Let_def
  replicate_numeral_unfold encode_utf8_def encode_char_def

lemmas repr_eval = hash_input_def py_repr_str_def quote_of_def escape_char_def
  non_printable_def str_dict_def hex_digit_def

text \<open>The model of SHA-1 on the test vectors of the standard.\<close>

lemma sha1_hex_abc: "sha1_hex (encode_utf8 ''abc'') = ''a9993e364706816aba3e25717850c26c9cd0d89d''"
  by (simp add: sha1_eval)

lemma sha1_hex_empty: "sha1_hex [] = ''da39a3ee5e6b4b0d3255bfef95601890afd80709''"
  by (simp add: sha1_eval)

lemma sha1_hex_two_blocks:
  "sha1_hex (encode_utf8 ''abcdbcdecdefdefgefghfghighijhijkijkljklmklmnlmnomnopnopq'')
     = ''84983e441c3bd26ebaae4aa1f95129e5e54670f1''"
  by (simp add: sha1_eval)

text \<open>\<open>repr\<close> and \<open>encode\<close> on strings with quotes, a control character and a character
  beyond ASCII.\<close>

lemma py_repr_str_examples:
  "py_repr_str ''()'' = [CHR 0x27, CHR ''('', CHR '')'', CHR 0x27]
   \<and> py_repr_str [CHR ''('', CHR 0x27, CHR ''a'', CHR 0x27, CHR '','', CHR '')'']
       = [CHR 0x22, CHR ''('', CHR 0x27, CHR ''a'', CHR 0x27, CHR '','', CHR '')'', CHR 0x22]
   \<and> py_repr_str [CHR ''('', CHR 0x85, CHR '','', CHR '')'']
       = [CHR 0x27, CHR ''('', CHR 0x5C, CHR ''x'', CHR ''8'', CHR ''5'', CHR '','', CHR '')'', CHR 0x27]
   \<and> py_repr_str [CHR ''('', CHR 0xE9, CHR '','', CHR '')'']
       = [CHR 0x27, CHR ''('', CHR 0xE9, CHR '','', CHR '')'', CHR 0x27]
   \<and> encode_utf8 [CHR ''('', CHR 0xE9, CHR '','', CHR '')''] = [40, 195, 169, 44, 41]"
  by (simp add: repr_eval encode_utf8_def encode_char_def)












subsection \<open>Two calls\<close>





























lemma cache_exists_world_rows:
  assumes "rows_max_age (Rows rows) ''()'' ''{}'' = Inr m"
  shows "cache_exists (world_rows rows age c\<lparr>now := t\<rparr>)
      [(TOTAL_NUMCACHE_KEY, Count (int (length rows))), (''f'', Rows rows)] ''f'' [] [] [] =
     lookup_artifact (world_rows rows age c\<lparr>now := t\<rparr>) (file_path_pkl ''f'' [] []) m"
proof -
  have "file_exists (world_rows rows age c\<lparr>now := t\<rparr>) (file_path_pkl ''f'' [] [])
        \<and> \<not> file_exists (world_rows rows age c\<lparr>now := t\<rparr>) (file_path_npy ''f'' [] [])"
    using npy_neq_pkl [of "''f''" "[]" "[]"] by (auto simp: world_rows_def file_exists_def)
  then show ?thesis
    using assms
    by (simp add: cache_exists_def strip_excluded_def TOTAL_NUMCACHE_KEY_def str_dict_def)
qed

lemma lookup_world_rows:
  "lookup_artifact (world_rows rows age (Pickle v)\<lparr>now := t\<rparr>) (file_path_pkl ''f'' [] []) m =
     (if is_stale ((t - (1000000 - age * 86400)) div 86400) m
      then (Inr (False, VNone),
            os_remove (file_path_pkl ''f'' [] []) (world_rows rows age (Pickle v)\<lparr>now := t\<rparr>))
      else if v \<noteq> VNone then (Inr (True, v), world_rows rows age (Pickle v)\<lparr>now := t\<rparr>)
      else (Inr (False, VNone), world_rows rows age (Pickle v)\<lparr>now := t\<rparr>))"
proof -
  have a: "get_age_of_file (world_rows rows age (Pickle v)\<lparr>now := t\<rparr>) (file_path_pkl ''f'' [] [])
             = Inr ((t - (1000000 - age * 86400)) div 86400)"
    by (simp add: get_age_of_file_def world_rows_def)
  have u: "unpickle_big_data (world_rows rows age (Pickle v)\<lparr>now := t\<rparr>) (file_path_pkl ''f'' [] [])
             = Inr v"
    using not_ends_with_npy_pkl_path [of "''f''" "[]" "[]"]
    by (simp add: unpickle_big_data_def unpickle_first_def pickle_load_def world_rows_def)
  show ?thesis by (simp add: lookup_artifact_def a u)
qed

lemma world_rows_now: "world_rows rows age c\<lparr>now := 1000000\<rparr> = world_rows rows age c"
  by (simp add: world_rows_def)

text \<open>
  C5, the claim as stated fails for an entry that is not the first row of its signature (the
  rows of one signature share the artifact). With the rows \<open>[TTL 0, TTL 2]\<close> and an
  artifact modified three days ago, the lookup is a hit and removes nothing, although the
  second entry has \<open>max_age_days = 2\<close>. With the rows \<open>[TTL 2, TTL 0]\<close> the lookup removes
  the artifact, although the second entry has \<open>max_age_days = 0\<close>.
\<close>

theorem lookup_reads_first_row_only:
  "max_age_days (row_f (Some 2)) = Some 2
   \<and> max_age_days (row_f (Some 0)) = Some UNLIMITED_CACHE_AGE
   \<and> get_age_of_file (world_rows [row_f (Some 0), row_f (Some 2)] 3 (Pickle (VObj 7)))
        (join_path DISK_CACHE_DIR (file_name (row_f (Some 2)))) = Inr 3
   \<and> cache_exists (world_rows [row_f (Some 0), row_f (Some 2)] 3 (Pickle (VObj 7)))
        [(TOTAL_NUMCACHE_KEY, Count 2), (''f'', Rows [row_f (Some 0), row_f (Some 2)])] ''f'' [] [] []
       = (Inr (True, VObj 7), world_rows [row_f (Some 0), row_f (Some 2)] 3 (Pickle (VObj 7)))
   \<and> cache_exists (world_rows [row_f (Some 2), row_f (Some 0)] 3 (Pickle (VObj 7)))
        [(TOTAL_NUMCACHE_KEY, Count 2), (''f'', Rows [row_f (Some 2), row_f (Some 0)])] ''f'' [] [] []
       = (Inr (False, VNone),
          os_remove (file_path_pkl ''f'' [] [])
            (world_rows [row_f (Some 2), row_f (Some 0)] 3 (Pickle (VObj 7))))
   \<and> file_exists (world_rows [row_f (Some 2), row_f (Some 0)] 3 (Pickle (VObj 7)))
        (join_path DISK_CACHE_DIR (file_name (row_f (Some 0))))
   \<and> \<not> file_exists
         (os_remove (file_path_pkl ''f'' [] [])
            (world_rows [row_f (Some 2), row_f (Some 0)] 3 (Pickle (VObj 7))))
         (join_path DISK_CACHE_DIR (file_name (row_f (Some 0))))"
proof -
  have p: "join_path DISK_CACHE_DIR (file_name (row_f ttl)) = file_path_pkl ''f'' [] []" for ttl
    by (simp add: row_f_def file_path_pkl_def str_dict_def)
  have m: "max_age_days (row_f ttl) = ttl" for ttl
    by (simp add: row_f_def)
  have r02: "rows_max_age (Rows [row_f (Some 0), row_f (Some 2)]) ''()'' ''{}'' = Inr 0"
    and r20: "rows_max_age (Rows [row_f (Some 2), row_f (Some 0)]) ''()'' ''{}'' = Inr 2"
    by (simp_all add: rows_max_age_def row_f_def)
  have a: "get_age_of_file (world_rows [row_f (Some 0), row_f (Some 2)] 3 (Pickle (VObj 7)))
             (file_path_pkl ''f'' [] []) = Inr 3"
    by (simp add: get_age_of_file_def world_rows_def)
  have b: "cache_exists (world_rows [row_f (Some 0), row_f (Some 2)] 3 (Pickle (VObj 7)))
        [(TOTAL_NUMCACHE_KEY, Count 2), (''f'', Rows [row_f (Some 0), row_f (Some 2)])] ''f'' [] [] []
       = (Inr (True, VObj 7), world_rows [row_f (Some 0), row_f (Some 2)] 3 (Pickle (VObj 7)))"
    using cache_exists_world_rows [OF r02, where age = 3 and c = "Pickle (VObj 7)" and t = 1000000]
      lookup_world_rows [where rows = "[row_f (Some 0), row_f (Some 2)]" and age = 3
        and v = "VObj 7" and t = 1000000 and m = 0]
    by (simp add: world_rows_now is_stale_def UNLIMITED_CACHE_AGE_def)
  have c: "cache_exists (world_rows [row_f (Some 2), row_f (Some 0)] 3 (Pickle (VObj 7)))
        [(TOTAL_NUMCACHE_KEY, Count 2), (''f'', Rows [row_f (Some 2), row_f (Some 0)])] ''f'' [] [] []
       = (Inr (False, VNone),
          os_remove (file_path_pkl ''f'' [] [])
            (world_rows [row_f (Some 2), row_f (Some 0)] 3 (Pickle (VObj 7))))"
    using cache_exists_world_rows [OF r20, where age = 3 and c = "Pickle (VObj 7)" and t = 1000000]
      lookup_world_rows [where rows = "[row_f (Some 2), row_f (Some 0)]" and age = 3
        and v = "VObj 7" and t = 1000000 and m = 2]
    by (simp add: world_rows_now is_stale_def UNLIMITED_CACHE_AGE_def)
  have d: "file_exists (world_rows [row_f (Some 2), row_f (Some 0)] 3 (Pickle (VObj 7)))
             (file_path_pkl ''f'' [] [])"
    by (simp add: file_exists_def world_rows_def)
  have e: "\<not> file_exists
         (os_remove (file_path_pkl ''f'' [] [])
            (world_rows [row_f (Some 2), row_f (Some 0)] 3 (Pickle (VObj 7))))
         (file_path_pkl ''f'' [] [])"
    by (simp add: file_exists_def os_remove_def)
  show ?thesis
    unfolding p m using a b c d e by (simp add: UNLIMITED_CACHE_AGE_def)
qed






subsection \<open>Negative TTL\<close>





end
